theory Spec2Isabelle
  imports Complex_Main "HOL-Library.Product_Lexorder"
begin

section \<open>Report trees and flattened rows (analyze.py)\<close>

text \<open>
  The scanner's report is a JSON tree. Every field of a node is read with \<open>dict.get\<close>, so
  a missing key and a JSON null are the same value \<open>None\<close>. Numbers are modelled as exact
  rationals. The \<open>metrics\<close> object and its \<open>duplication\<close> object are read as
  \<open>node.get("metrics") or {}\<close>: a missing, null or empty object is \<open>None\<close> here, a
  non-empty object is \<open>Some\<close> of its canonical keys. The children are read as
  \<open>node.get("children", []) or []\<close>: a missing or null list is the empty list.
\<close>

datatype exn =
    CalledProcessError
  | FileNotFoundError
  | JSONDecodeError
  | TypeError
  | AttributeError
  | ValueError
  | RuntimeError

record duplication_obj =
  d_score :: "rat option"
  d_other :: "string option"
  d_lines_other :: "rat option"

record metrics_obj =
  m_lines :: "rat option"
  m_statements :: "rat option"
  m_expressions :: "rat option"
  m_expression_statements :: "rat option"
  m_cyclomatic_complexity :: "rat option"
  m_parameters :: "rat option"
  m_type_coverage :: "rat option"
  m_todo_comments :: "rat option"
  m_duplication :: "duplication_obj option"

record node_fields =
  n_name :: "string option"
  n_nodetype :: "string option"
  n_path :: "string option"
  n_qualname :: "string option"
  n_lineno :: "int option"
  n_end_lineno :: "int option"
  n_docstring :: "string option"
  n_metrics :: "metrics_obj option"

datatype node = Node node_fields "node list"

text \<open>One row of the DataFrame: the columns that \<open>load_report_to_df\<close> asks for.\<close>

record row =
  r_name :: "string option"
  r_nodetype :: "string option"
  r_path :: "string option"
  r_qualname :: "string option"
  r_lineno :: "int option"
  r_end_lineno :: "int option"
  r_docstring :: "string option"
  r_qual_or_name :: "string option"
  r_has_metrics :: bool
  r_is_directory :: bool
  r_is_file :: bool
  r_lines :: "rat option"
  r_statements :: "rat option"
  r_expressions :: "rat option"
  r_expression_statements :: "rat option"
  r_cyclomatic_complexity :: "rat option"
  r_parameters :: "rat option"
  r_type_coverage :: "rat option"
  r_todo_comments :: "rat option"
  r_dup_score :: "rat option"
  r_dup_other :: "string option"
  r_dup_lines_other :: "rat option"

text \<open>\<open>m.get(k)\<close> on \<open>m = node.get("metrics") or {}\<close>.\<close>

definition mget :: "metrics_obj option \<Rightarrow> (metrics_obj \<Rightarrow> 'a option) \<Rightarrow> 'a option" where
  "mget m f = (case m of None \<Rightarrow> None | Some x \<Rightarrow> f x)"

definition dget :: "metrics_obj option \<Rightarrow> (duplication_obj \<Rightarrow> 'a option) \<Rightarrow> 'a option" where
  "dget m f = (case mget m m_duplication of None \<Rightarrow> None | Some d \<Rightarrow> f d)"

text \<open>The body of \<open>_iter_nodes\<close> up to the \<open>yield row\<close>.\<close>

definition node_row :: "node_fields \<Rightarrow> row" where
  "node_row a =
     \<lparr> r_name = n_name a,
       r_nodetype = n_nodetype a,
       r_path = n_path a,
       r_qualname = n_qualname a,
       r_lineno = n_lineno a,
       r_end_lineno = n_end_lineno a,
       r_docstring = n_docstring a,
       r_qual_or_name =
         (if n_qualname a = None \<or> n_qualname a = Some [] then n_name a else n_qualname a),
       r_has_metrics = (n_metrics a \<noteq> None),
       r_is_directory = (n_nodetype a = Some ''directory''),
       r_is_file = (n_nodetype a = Some ''file''),
       r_lines = mget (n_metrics a) m_lines,
       r_statements = mget (n_metrics a) m_statements,
       r_expressions = mget (n_metrics a) m_expressions,
       r_expression_statements = mget (n_metrics a) m_expression_statements,
       r_cyclomatic_complexity = mget (n_metrics a) m_cyclomatic_complexity,
       r_parameters = mget (n_metrics a) m_parameters,
       r_type_coverage = mget (n_metrics a) m_type_coverage,
       r_todo_comments = mget (n_metrics a) m_todo_comments,
       r_dup_score = dget (n_metrics a) d_score,
       r_dup_other = dget (n_metrics a) d_other,
       r_dup_lines_other = dget (n_metrics a) d_lines_other \<rparr>"

text \<open>
  \<open>_iter_nodes\<close>: yield the node's row, then \<open>yield from\<close> each child in turn. The
  \<open>parent\<close> argument is passed along and never read.
\<close>

fun iter_nodes :: "node \<Rightarrow> row list" where
  "iter_nodes (Node a cs) = node_row a # concat (map iter_nodes cs)"

text \<open>\<open>load_report_to_df\<close> on the parsed report.\<close>

definition load_report_to_df :: "node \<Rightarrow> bool \<Rightarrow> row list" where
  "load_report_to_df data only_leaves =
     (let rows = iter_nodes data
      in if only_leaves then filter r_has_metrics rows else rows)"

subsection \<open>The traversal the specification describes\<close>

text \<open>
  Pre-order as the specification words it: a node before its children, the children in the
  order of the input. \<open>node_count\<close> counts the nodes of a tree.
\<close>

fun preorder :: "node \<Rightarrow> node_fields list" where
  "preorder (Node a cs) = a # concat (map preorder cs)"

fun node_count :: "node \<Rightarrow> nat" where
  "node_count (Node a cs) = Suc (sum_list (map node_count cs))"

section \<open>Numeric coercion and series statistics (analyze.py)\<close>

text \<open>
  \<open>int(x)\<close> and \<open>astype(int)\<close> truncate towards zero. A float that may be NaN is a
  \<open>rat option\<close> with \<open>None\<close> for NaN; \<open>int(nan)\<close> raises \<open>ValueError\<close>.
\<close>

definition trunc :: "rat \<Rightarrow> int" where
  "trunc x = (if 0 \<le> x then \<lfloor>x\<rfloor> else \<lceil>x\<rceil>)"

definition fillna_int :: "rat option \<Rightarrow> rat option" where
  "fillna_int v = Some (of_int (trunc (case v of None \<Rightarrow> 0 | Some x \<Rightarrow> x)))"

definition fillna_float :: "rat option \<Rightarrow> rat option" where
  "fillna_float v = Some (case v of None \<Rightarrow> 0 | Some x \<Rightarrow> x)"

text \<open>
  \<open>process_df\<close> rewrites nine columns; \<open>metrics.type_coverage\<close> and
  \<open>metrics.duplication.other\<close> are not among them.
\<close>

definition process_row :: "row \<Rightarrow> row" where
  "process_row r =
     r\<lparr> r_lines := fillna_int (r_lines r),
        r_statements := fillna_int (r_statements r),
        r_expressions := fillna_int (r_expressions r),
        r_expression_statements := fillna_int (r_expression_statements r),
        r_cyclomatic_complexity := fillna_int (r_cyclomatic_complexity r),
        r_parameters := fillna_int (r_parameters r),
        r_todo_comments := fillna_int (r_todo_comments r),
        r_dup_lines_other := fillna_int (r_dup_lines_other r),
        r_dup_score := fillna_float (r_dup_score r) \<rparr>"

definition process_df :: "row list \<Rightarrow> row list" where
  "process_df df = map process_row df"

text \<open>
  pandas reductions skip NaN and give NaN on a series with no value left. The mean, the
  percentiles and the rounding are written in exact rational arithmetic: the code computes
  them in double precision, so a value below is the exact counterpart of the code's
  double. Nothing is stated below about the order or the distance of two such values.
\<close>

fun dropna :: "'a option list \<Rightarrow> 'a list" where
  "dropna [] = []"
| "dropna (None # xs) = dropna xs"
| "dropna (Some x # xs) = x # dropna xs"

definition series_mean :: "rat option list \<Rightarrow> rat option" where
  "series_mean s =
     (let xs = dropna s
      in if xs = [] then None else Some (sum_list xs / of_nat (length xs)))"

definition series_max :: "rat option list \<Rightarrow> rat option" where
  "series_max s = (case dropna s of [] \<Rightarrow> None | x # xs \<Rightarrow> Some (fold max xs x))"

definition series_min :: "rat option list \<Rightarrow> rat option" where
  "series_min s = (case dropna s of [] \<Rightarrow> None | x # xs \<Rightarrow> Some (fold min xs x))"

definition series_sum :: "rat option list \<Rightarrow> rat" where
  "series_sum s = sum_list (dropna s)"

text \<open>
  \<open>Series.quantile(q)\<close>, linear interpolation: over the \<open>n\<close> sorted values, at position
  \<open>q * (n - 1)\<close>, between the two neighbouring order statistics.
\<close>

definition interpolate :: "rat list \<Rightarrow> rat \<Rightarrow> rat" where
  "interpolate xs h =
     (let lo = nat \<lfloor>h\<rfloor>; hi = min (Suc lo) (length xs - 1)
      in xs ! lo + (h - of_nat lo) * (xs ! hi - xs ! lo))"

definition series_quantile :: "rat \<Rightarrow> rat option list \<Rightarrow> rat option" where
  "series_quantile q s =
     (let xs = sort (dropna s)
      in if xs = [] then None else Some (interpolate xs (q * of_nat (length xs - 1))))"

text \<open>\<open>round(k)\<close> of numpy: to \<open>k\<close> decimals, a tie to the even neighbour.\<close>

definition round_half_even :: "rat \<Rightarrow> int" where
  "round_half_even x =
     (let f = \<lfloor>x\<rfloor>; d = x - of_int f
      in if d < 1 / 2 then f else if 1 / 2 < d then f + 1 else if even f then f else f + 1)"

definition round_dec :: "nat \<Rightarrow> rat \<Rightarrow> rat" where
  "round_dec k x = of_int (round_half_even (x * 10 ^ k)) / 10 ^ k"

text \<open>
  \<open>s.mean().round(4)\<close>: the mean of a series with no value is the Python float
  \<open>nan\<close>, which has no method \<open>round\<close>, so the call raises \<open>AttributeError\<close>.
\<close>

definition mean_round4 :: "rat option \<Rightarrow> exn + rat" where
  "mean_round4 v = (case v of None \<Rightarrow> Inl AttributeError | Some x \<Rightarrow> Inr (round_dec 4 x))"

definition py_int :: "rat option \<Rightarrow> exn + int" where
  "py_int v = (case v of None \<Rightarrow> Inl ValueError | Some x \<Rightarrow> Inr (trunc x))"

text \<open>
  The values of a metrics record, which are also the cells of a ledger. A date is
  \<open>(year, month, day)\<close>, compared lexicographically as Python compares dates; in a
  record it stands for its ISO text. \<open>json\<close> is a parsed JSON document, an object being
  the list of its members (with distinct keys); \<open>CJson\<close> carries a value of the line
  counter that is neither a number, a string nor null.
\<close>

type_synonym date = "int \<times> int \<times> int"

datatype json =
    JNull
  | JBool bool
  | JNum rat
  | JStr string
  | JArr "json list"
  | JObj "(string \<times> json) list"

datatype cell = CInt int | CFloat rat | CNaN | CStr string | CDate date | CJson json

definition py_float :: "rat option \<Rightarrow> cell" where
  "py_float v = (case v of None \<Rightarrow> CNaN | Some x \<Rightarrow> CFloat x)"

text \<open>
  \<open>df["docstring"].str.len()\<close> is NaN where the docstring is null; a comparison with
  NaN is false; the mean of a boolean series is the share of true entries.
\<close>

definition str_len :: "string option list \<Rightarrow> nat option list" where
  "str_len s = map (map_option length) s"

definition gt0 :: "nat option \<Rightarrow> bool" where
  "gt0 v = (case v of None \<Rightarrow> False | Some n \<Rightarrow> 0 < n)"

definition eq0 :: "nat option \<Rightarrow> bool" where
  "eq0 v = (case v of None \<Rightarrow> False | Some n \<Rightarrow> n = 0)"

definition bool_sum :: "bool list \<Rightarrow> nat" where
  "bool_sum bs = length (filter (\<lambda>b. b) bs)"

definition bool_mean :: "bool list \<Rightarrow> rat option" where
  "bool_mean bs = (if bs = [] then None else Some (of_nat (bool_sum bs) / of_nat (length bs)))"

text \<open>The product of two columns is NaN where either factor is.\<close>

definition mul_series :: "rat option list \<Rightarrow> rat option list \<Rightarrow> rat option list" where
  "mul_series xs ys =
     map (\<lambda>(x, y). case x of None \<Rightarrow> None | Some a \<Rightarrow> map_option (\<lambda>b. a * b) y) (zip xs ys)"

fun and_then :: "exn + 'a \<Rightarrow> ('a \<Rightarrow> exn + 'b) \<Rightarrow> exn + 'b" where
  "and_then (Inl e) f = Inl e"
| "and_then (Inr x) f = f x"

text \<open>
  \<open>aggregate_metrics\<close>. The dictionary is an association list in insertion order. The
  calls that can raise are taken in the order of the source: each \<open>.mean().round(4)\<close>
  raises \<open>AttributeError\<close> on a column with no value, each \<open>int(...)\<close> raises
  \<open>ValueError\<close> on NaN. For every column the mean comes first, so a frame without rows
  fails at the docstring coverage, the first statement that computes a mean.
\<close>

definition aggregate_metrics :: "row list \<Rightarrow> date \<Rightarrow> exn + (string \<times> cell) list" where
  "aggregate_metrics df date =
     and_then (mean_round4 (bool_mean (map gt0 (str_len (map r_docstring df))))) (\<lambda>docstring_coverage.
     and_then (mean_round4 (series_mean (map r_lines df))) (\<lambda>lines_mean.
     and_then (py_int (series_max (map r_lines df))) (\<lambda>lines_max.
     and_then (py_int (series_quantile (9 / 10) (map r_lines df))) (\<lambda>lines_p90.
     and_then (mean_round4 (series_mean (map r_statements df))) (\<lambda>statements_mean.
     and_then (py_int (series_max (map r_statements df))) (\<lambda>statements_max.
     and_then (py_int (series_quantile (9 / 10) (map r_statements df))) (\<lambda>statements_p90.
     and_then (mean_round4 (series_mean (map r_expressions df))) (\<lambda>expressions_mean.
     and_then (py_int (series_max (map r_expressions df))) (\<lambda>expressions_max.
     and_then (py_int (series_quantile (9 / 10) (map r_expressions df))) (\<lambda>expressions_p90.
     and_then (mean_round4 (series_mean (map r_cyclomatic_complexity df))) (\<lambda>cc_mean.
     and_then (py_int (series_max (map r_cyclomatic_complexity df))) (\<lambda>cc_max.
     and_then (py_int (series_quantile (9 / 10) (map r_cyclomatic_complexity df))) (\<lambda>cc_p90.
     and_then (mean_round4 (series_mean (map r_parameters df))) (\<lambda>parameters_mean.
     and_then (py_int (series_max (map r_parameters df))) (\<lambda>parameters_max.
     and_then (py_int (series_quantile (9 / 10) (map r_parameters df))) (\<lambda>parameters_p90.
     and_then (mean_round4 (series_mean (map r_type_coverage df))) (\<lambda>tc_mean.
     and_then (py_int (series_min (map r_type_coverage df))) (\<lambda>tc_min.
     and_then (py_int (series_quantile (1 / 2) (map r_type_coverage df))) (\<lambda>tc_p50.
     and_then (mean_round4 (series_mean (map r_dup_score df))) (\<lambda>dup_mean.
     Inr
      [(''date'', CDate date),
       (''docstring coverage'', CFloat docstring_coverage),
       (''docstring missing'', CInt (int (bool_sum (map eq0 (str_len (map r_docstring df)))))),
       (''lines mean'', CFloat lines_mean),
       (''lines max'', CInt lines_max),
       (''lines 90th-percentile'', CInt lines_p90),
       (''statements mean'', CFloat statements_mean),
       (''statements max'', CInt statements_max),
       (''statements 90th-percentile'', CInt statements_p90),
       (''expressions mean'', CFloat expressions_mean),
       (''expressions max'', CInt expressions_max),
       (''expressions 90th-percentile'', CInt expressions_p90),
       (''cyclomatic_complexity mean'', CFloat cc_mean),
       (''cyclomatic_complexity max'', CInt cc_max),
       (''cyclomatic_complexity 90th-percentile'', CInt cc_p90),
       (''parameters mean'', CFloat parameters_mean),
       (''parameters max'', CInt parameters_max),
       (''parameters 90th-percentile'', CInt parameters_p90),
       (''type_coverage mean'', CFloat tc_mean),
       (''type_coverage min'', CInt tc_min),
       (''type_coverage 50th-percentile'', CInt tc_p50),
       (''todo_comments total'', CInt (trunc (series_sum (map r_todo_comments df)))),
       (''duplication.score mean'', CFloat dup_mean),
       (''duplication.score max'', py_float (series_max (map r_dup_score df))),
       (''duplication.score 90th-percentile'',
          py_float (series_quantile (9 / 10) (map r_dup_score df))),
       (''duplication.score 50th-percentile'',
          py_float (series_quantile (1 / 2) (map r_dup_score df))),
       (''duplication.duplicated-lines total'',
          CInt (round_half_even
            (series_sum (mul_series (map r_lines df) (map r_dup_score df)))))
      ]))))))))))))))))))))"

text \<open>Lines 299 and 300 of \<open>main\<close>: load with \<open>only_leaves=True\<close>, then coerce.\<close>

definition analyze_frame :: "node \<Rightarrow> row list" where
  "analyze_frame data = process_df (load_report_to_df data True)"

section \<open>The ledger (analyze.py)\<close>





















section \<open>The line counter and the analysis of one report (analyze.py)\<close>

text \<open>
  What \<open>subprocess.run(["cloc", ...], check=True)\<close> and \<open>json.loads\<close> can meet: the
  executable is not found (\<open>FileNotFoundError\<close>), it exits non-zero
  (\<open>CalledProcessError\<close>), or it prints a text that is JSON or not
  (\<open>JSONDecodeError\<close>).
\<close>

datatype cloc_run = NotInstalled | ExitNonZero | Printed "json option"

text \<open>\<open>d.get(k, default)\<close> on the members of an object.\<close>

definition get_or :: "(string \<times> json) list \<Rightarrow> string \<Rightarrow> json \<Rightarrow> json" where
  "get_or d k dflt = (case map_of d k of None \<Rightarrow> dflt | Some v \<Rightarrow> v)"

definition substring :: "string \<Rightarrow> string \<Rightarrow> bool" where
  "substring p s = list_ex (\<lambda>i. take (length p) (drop i s) = p) [0..<Suc (length s)]"

text \<open>
  \<open>cloc_metrics\<close>. Only \<open>CalledProcessError\<close> and \<open>JSONDecodeError\<close> are caught. The
  test \<open>"Python" in cloc_data\<close> is a key test on an object, a membership test on an
  array, a substring test on a string and a \<open>TypeError\<close> on null, a boolean or a
  number; the subscript that follows needs an object, and so does \<open>py_data.get\<close>.
\<close>

definition cloc_metrics :: "cloc_run \<Rightarrow> exn + (string \<times> json) list" where
  "cloc_metrics run =
     (case run of
        NotInstalled \<Rightarrow> Inl FileNotFoundError
      | ExitNonZero \<Rightarrow> Inr []
      | Printed None \<Rightarrow> Inr []
      | Printed (Some cloc_data) \<Rightarrow>
          (case cloc_data of
             JObj members \<Rightarrow>
               (case map_of members ''Python'' of
                  None \<Rightarrow> Inr []
                | Some (JObj py_data) \<Rightarrow>
                    Inr [(''files'', get_or py_data ''nFiles'' (JNum 0)),
                         (''lines blank'', get_or py_data ''blank'' (JNum 0)),
                         (''lines comment'', get_or py_data ''comment'' (JNum 0)),
                         (''lines code'', get_or py_data ''code'' (JNum 0))]
                | Some _ \<Rightarrow> Inl AttributeError)
           | JArr items \<Rightarrow> if JStr ''Python'' \<in> set items then Inl TypeError else Inr []
           | JStr text \<Rightarrow> if substring ''Python'' text then Inl TypeError else Inr []
           | _ \<Rightarrow> Inl TypeError))"

definition cell_of_json :: "json \<Rightarrow> cell" where
  "cell_of_json v =
     (case v of
        JNum x \<Rightarrow> if of_int (trunc x) = x then CInt (trunc x) else CFloat x
      | JStr t \<Rightarrow> CStr t
      | _ \<Rightarrow> CJson v)"

text \<open>\<open>d[k] = v\<close> and \<open>d.update(e)\<close> on a dictionary in insertion order.\<close>

fun dict_set :: "('k \<times> 'v) list \<Rightarrow> 'k \<Rightarrow> 'v \<Rightarrow> ('k \<times> 'v) list" where
  "dict_set [] k v = [(k, v)]"
| "dict_set ((k', v') # d) k v = (if k' = k then (k, v) # d else (k', v') # dict_set d k v)"

definition dict_update :: "('k \<times> 'v) list \<Rightarrow> ('k \<times> 'v) list \<Rightarrow> ('k \<times> 'v) list" where
  "dict_update d e = fold (\<lambda>(k, v) acc. dict_set acc k v) e d"

text \<open>
  \<open>main\<close> of analyze.py without \<open>--hub-repo\<close>, as backfill.py calls it: the report is
  read and parsed (\<open>Inl\<close> when that raises), filtered and coerced, aggregated, the line
  counts are merged in, and the record is printed as a CSV of one row.
\<close>

definition analyze_main ::
  "exn + node \<Rightarrow> cloc_run \<Rightarrow> date \<Rightarrow> exn + (string \<times> cell) list" where
  "analyze_main report cloc date =
     and_then report (\<lambda>data.
     and_then (aggregate_metrics (analyze_frame data) date) (\<lambda>agg.
     and_then (cloc_metrics cloc) (\<lambda>counts.
     Inr (dict_update agg (map (\<lambda>(k, v). (k, cell_of_json v)) counts)))))"

text \<open>
  The analysis as a child process: an uncaught exception ends it with status 1 and nothing
  on standard output.
\<close>

record completed_process =
  returncode :: int
  stdout :: "(string \<times> cell) list option"

definition run_analyze :: "exn + node \<Rightarrow> cloc_run \<Rightarrow> date \<Rightarrow> completed_process" where
  "run_analyze report cloc date =
     (case analyze_main report cloc date of
        Inl e \<Rightarrow> \<lparr> returncode = 1, stdout = None \<rparr>
      | Inr rec \<Rightarrow> \<lparr> returncode = 0, stdout = Some rec \<rparr>)"

section \<open>The backfill (backfill.py)\<close>

text \<open>
  Everything outside the process is a field of the environment. Lines printed by git are
  given stripped. \<open>heads\<close> are the branches with their tips. \<open>checkout_fails\<close> says for
  which targets \<open>git checkout\<close> exits non-zero, leaving HEAD where it was. The oracles
  \<open>rev_list_reverse\<close>, \<open>rev_list_since\<close> and \<open>show_date\<close> are git's answers for the
  chosen branch; \<open>scanner\<close> is the exit status of main.py on the tree of a commit,
  \<open>report\<close> what analyze.py then reads, \<open>cloc\<close> what the line counter does there.
\<close>

record env =
  main_py_exists :: bool
  analyze_py_exists :: bool
  heads :: "(string \<times> string) list"
  checkout_fails :: "string \<Rightarrow> bool"
  rev_list_reverse :: "string list"
  rev_list_since :: "date \<Rightarrow> string list"
  show_date :: "string \<Rightarrow> exn + date"
  today :: date
  scanner :: "string \<Rightarrow> int"
  report :: "string \<Rightarrow> exn + node"
  cloc :: "string \<Rightarrow> cloc_run"

record args =
  branch :: string
  max_months :: int

text \<open>
  HEAD as \<open>git_current_ref\<close> reads it: the abbreviated ref (a branch name, or
  \<open>HEAD\<close> when detached) and the commit.
\<close>

type_synonym head = "string \<times> string"

definition git_checkout :: "env \<Rightarrow> string \<Rightarrow> head \<Rightarrow> head option" where
  "git_checkout e target h =
     (if checkout_fails e target then None
      else Some (case map_of (heads e) target of
                   Some tip \<Rightarrow> (target, tip)
                 | None \<Rightarrow> (''HEAD'', target)))"

definition git_earliest_first_parent_sha :: "env \<Rightarrow> string option" where
  "git_earliest_first_parent_sha e =
     (case filter (\<lambda>line. line \<noteq> []) (rev_list_reverse e) of
        [] \<Rightarrow> None
      | line # _ \<Rightarrow> Some line)"

definition git_first_commit_date :: "env \<Rightarrow> exn + date" where
  "git_first_commit_date e =
     (case git_earliest_first_parent_sha e of
        None \<Rightarrow> Inl RuntimeError
      | Some sha \<Rightarrow> show_date e sha)"

definition git_first_commit_on_or_after :: "env \<Rightarrow> date \<Rightarrow> string option" where
  "git_first_commit_on_or_after e since =
     (case filter (\<lambda>line. line \<noteq> []) (rev_list_since e since) of
        [] \<Rightarrow> None
      | sha # _ \<Rightarrow> Some sha)"

definition git_commit_date :: "env \<Rightarrow> string \<Rightarrow> exn + date" where
  "git_commit_date e sha = show_date e sha"

text \<open>
  \<open>month_starts_descending\<close>: \<open>n\<close> rounds of the loop from the date \<open>d\<close>; each round
  appends \<open>d\<close> and builds the first day of the month before, which raises
  \<open>ValueError\<close> before year 1.
\<close>

fun month_starts :: "nat \<Rightarrow> date \<Rightarrow> exn + date list" where
  "month_starts 0 d = Inr []"
| "month_starts (Suc n) (y, m, dd) =
     (let year = (if m = 1 then y - 1 else y); month = (if m = 1 then 12 else m - 1)
      in if year < 1 then Inl ValueError
         else and_then (month_starts n (year, month, 1)) (\<lambda>starts. Inr ((y, m, dd) # starts)))"

definition month_starts_descending :: "date \<Rightarrow> exn + date list" where
  "month_starts_descending t = month_starts 2400 (fst t, fst (snd t), 1)"

text \<open>\<open>xs[:k]\<close>.\<close>

definition slice_to :: "int \<Rightarrow> 'a list \<Rightarrow> 'a list" where
  "slice_to k xs = (if 0 \<le> k then take (nat k) xs else take (length xs - nat (- k)) xs)"

text \<open>
  Lines 135 to 151, what is done at a snapshot once it is checked out: \<open>Break\<close> leaves
  the loop, \<open>Raise\<close> is an exception, \<open>Continue\<close> goes on to the next month with the
  record to collect, if standard output was not blank.
\<close>

datatype step = Continue "(string \<times> cell) list option" | Break | Raise exn

definition analyse_snapshot :: "env \<Rightarrow> string \<Rightarrow> step" where
  "analyse_snapshot e sha =
     (if scanner e sha \<noteq> 0 then
        (case git_commit_date e sha of Inl x \<Rightarrow> Raise x | Inr d \<Rightarrow> Break)
      else
        (case git_commit_date e sha of
           Inl x \<Rightarrow> Raise x
         | Inr commit_dt \<Rightarrow>
             (let cp_agg = run_analyze (report e sha) (cloc e sha) commit_dt
              in if returncode cp_agg \<noteq> 0 then Raise CalledProcessError
                 else Continue (stdout cp_agg))))"

text \<open>
  The state of the loop: HEAD of the repository, \<open>seen_shas\<close> (a set in the source, here
  the list of its elements in the order they were added) and the collected \<open>dfs\<close>.
\<close>

record loop_state =
  head_of :: head
  seen_shas :: "string list"
  dfs :: "(string \<times> cell) list list"

datatype signal = Finished | Raised exn

fun snapshot_loop :: "env \<Rightarrow> date \<Rightarrow> date list \<Rightarrow> loop_state \<Rightarrow> signal \<times> loop_state" where
  "snapshot_loop e earliest [] st = (Finished, st)"
| "snapshot_loop e earliest (month_start # rest) st =
     (if month_start < (fst earliest, fst (snd earliest), 1) then (Finished, st)
      else
        (case git_first_commit_on_or_after e month_start of
           None \<Rightarrow> snapshot_loop e earliest rest st
         | Some sha \<Rightarrow>
             if sha \<in> set (seen_shas st) then snapshot_loop e earliest rest st
             else
               (let st1 = st\<lparr> seen_shas := seen_shas st @ [sha] \<rparr>
                in case git_checkout e sha (head_of st1) of
                     None \<Rightarrow> (Raised CalledProcessError, st1)
                   | Some h \<Rightarrow>
                       (let st2 = st1\<lparr> head_of := h \<rparr>
                        in case analyse_snapshot e sha of
                             Raise x \<Rightarrow> (Raised x, st2)
                           | Break \<Rightarrow> (Finished, st2)
                           | Continue None \<Rightarrow> snapshot_loop e earliest rest st2
                           | Continue (Some df) \<Rightarrow>
                               snapshot_loop e earliest rest (st2\<lparr> dfs := dfs st2 @ [df] \<rparr>)))))"

text \<open>
  The key of \<open>sort_values("date")\<close>. The sort here is stable; pandas does not promise an
  order among rows of the same date.
\<close>

definition date_key :: "(string \<times> cell) list \<Rightarrow> date" where
  "date_key rec = (case map_of rec ''date'' of Some (CDate d) \<Rightarrow> d | _ \<Rightarrow> (0, 0, 0))"

datatype outcome = Returned | Exited int | Failed exn

record run_result =
  outcome_of :: outcome
  final_head :: head
  written :: "(string \<times> cell) list list option"
  emitted :: "string list"

definition restore_target :: "head \<Rightarrow> string" where
  "restore_target h = (if fst h = ''HEAD'' then snd h else fst h)"

text \<open>
  Lines 153 to 169: what follows the loop inside the \<open>try\<close> block, and the \<open>finally\<close>
  clause, which runs for every way out of the block and checks the start out again with
  \<open>check=False\<close>.
\<close>

definition finish :: "env \<Rightarrow> head \<Rightarrow> signal \<times> loop_state \<Rightarrow> run_result" where
  "finish e h0 r =
     (let st = snd r;
          restored = (case git_checkout e (restore_target h0) (head_of st) of
                        None \<Rightarrow> head_of st
                      | Some h \<Rightarrow> h)
      in case fst r of
           Raised x \<Rightarrow>
             \<lparr> outcome_of = Failed x, final_head = restored, written = None,
               emitted = seen_shas st \<rparr>
         | Finished \<Rightarrow>
             \<lparr> outcome_of = Returned, final_head = restored,
               written = (if dfs st = [] then None else Some (sort_key date_key (dfs st))),
               emitted = seen_shas st \<rparr>)"

text \<open>
  \<open>main\<close> of backfill.py, from the repository's HEAD before the run. The checkout of
  the branch and the lookup of the earliest commit come before the \<open>try\<close> block.
\<close>

definition main :: "env \<Rightarrow> args \<Rightarrow> head \<Rightarrow> run_result" where
  "main e a h0 =
     (if \<not> main_py_exists e then
        \<lparr> outcome_of = Exited 2, final_head = h0, written = None, emitted = [] \<rparr>
      else if \<not> analyze_py_exists e then
        \<lparr> outcome_of = Exited 2, final_head = h0, written = None, emitted = [] \<rparr>
      else if map_of (heads e) (branch a) = None then
        \<lparr> outcome_of = Exited 2, final_head = h0, written = None, emitted = [] \<rparr>
      else
        (case git_checkout e (branch a) h0 of
           None \<Rightarrow>
             \<lparr> outcome_of = Failed CalledProcessError, final_head = h0, written = None,
               emitted = [] \<rparr>
         | Some h1 \<Rightarrow>
             (case git_first_commit_date e of
                Inl x \<Rightarrow> \<lparr> outcome_of = Failed x, final_head = h1, written = None, emitted = [] \<rparr>
              | Inr earliest \<Rightarrow>
                  (case month_starts_descending (today e) of
                     Inl x \<Rightarrow>
                       \<lparr> outcome_of = Failed x, final_head = h1, written = None, emitted = [] \<rparr>
                   | Inr all_starts \<Rightarrow>
                       (let starts = (if max_months a \<noteq> 0 then slice_to (max_months a) all_starts
                                      else all_starts)
                        in finish e h0
                             (snapshot_loop e earliest starts
                                \<lparr> head_of = h1, seen_shas = [], dfs = [] \<rparr>))))))"

text \<open>
  The start can be checked out again: the checkout of the restore target does not fail, and
  the start is either a branch at its tip or a detached commit that is no branch name.
\<close>

definition restorable :: "env \<Rightarrow> head \<Rightarrow> bool" where
  "restorable e h0 =
     (\<not> checkout_fails e (restore_target h0) \<and>
      (if fst h0 = ''HEAD'' then map_of (heads e) (snd h0) = None
       else map_of (heads e) (fst h0) = Some (snd h0)))"

text \<open>
  A snapshot ends the loop when its checkout fails or its analysis does not go on to the
  next month; \<open>stop_signal\<close> is how the loop then ends.
\<close>

definition stops :: "env \<Rightarrow> string \<Rightarrow> bool" where
  "stops e sha =
     (checkout_fails e sha \<or> (case analyse_snapshot e sha of Continue r \<Rightarrow> False | _ \<Rightarrow> True))"

definition stop_signal :: "env \<Rightarrow> string \<Rightarrow> signal" where
  "stop_signal e sha =
     (if checkout_fails e sha then Raised CalledProcessError
      else case analyse_snapshot e sha of Raise x \<Rightarrow> Raised x | _ \<Rightarrow> Finished)"

subsection \<open>Reading a metrics record; the vocabulary of the statements\<close>

definition stat_int :: "(string \<times> cell) list \<Rightarrow> string \<Rightarrow> int option" where
  "stat_int res k = (case map_of res k of Some (CInt i) \<Rightarrow> Some i | _ \<Rightarrow> None)"

definition stat_float :: "(string \<times> cell) list \<Rightarrow> string \<Rightarrow> rat option" where
  "stat_float res k = (case map_of res k of Some (CFloat x) \<Rightarrow> Some x | _ \<Rightarrow> None)"

definition has_doc :: "row \<Rightarrow> bool" where
  "has_doc r = (case r_docstring r of None \<Rightarrow> False | Some s \<Rightarrow> s \<noteq> [])"

definition empty_doc :: "row \<Rightarrow> bool" where
  "empty_doc r = (r_docstring r = Some [])"

definition null_doc :: "row \<Rightarrow> bool" where
  "null_doc r = (r_docstring r = None)"

subsection \<open>Small inputs for the concrete evaluations\<close>

definition metric_row :: "rat option \<Rightarrow> rat option \<Rightarrow> rat option \<Rightarrow> string option \<Rightarrow> row" where
  "metric_row l sc tc doc =
     \<lparr> r_name = Some ''f'', r_nodetype = Some ''file'', r_path = None, r_qualname = None,
       r_lineno = None, r_end_lineno = None, r_docstring = doc, r_qual_or_name = Some ''f'',
       r_has_metrics = True, r_is_directory = False, r_is_file = True,
       r_lines = l, r_statements = None, r_expressions = None,
       r_expression_statements = None, r_cyclomatic_complexity = None, r_parameters = None,
       r_type_coverage = tc, r_todo_comments = None,
       r_dup_score = sc, r_dup_other = None, r_dup_lines_other = None \<rparr>"

definition lines_only :: "rat \<Rightarrow> metrics_obj" where
  "lines_only l =
     \<lparr> m_lines = Some l, m_statements = None, m_expressions = None,
       m_expression_statements = None, m_cyclomatic_complexity = None, m_parameters = None,
       m_type_coverage = None, m_todo_comments = None, m_duplication = None \<rparr>"

definition plain_node :: "string \<Rightarrow> string \<Rightarrow> metrics_obj option \<Rightarrow> node_fields" where
  "plain_node nm ty m =
     \<lparr> n_name = Some nm, n_nodetype = Some ty, n_path = None, n_qualname = None,
       n_lineno = None, n_end_lineno = None, n_docstring = None, n_metrics = m \<rparr>"



definition good_report :: node where
  "good_report =
     Node (plain_node ''src'' ''directory'' None)
       [Node (plain_node ''a.py'' ''file''
          (Some ((lines_only 10)\<lparr> m_type_coverage := Some 1 \<rparr>))) []]"

definition bare_report :: node where
  "bare_report = Node (plain_node ''src'' ''directory'' None) []"

text \<open>
  A repository with the branches main and dev; on main the commits c1 of 2024-01-10 and c3
  of 2024-03-05, and nothing in February or April; today is 2024-04-20.
\<close>

definition example_env ::
  "string list \<Rightarrow> (string \<Rightarrow> int) \<Rightarrow> (string \<Rightarrow> exn + node) \<Rightarrow> env" where
  "example_env revs scan rep =
     \<lparr> main_py_exists = True, analyze_py_exists = True,
       heads = [(''main'', ''c3''), (''dev'', ''d1'')],
       checkout_fails = (\<lambda>target. False),
       rev_list_reverse = revs,
       rev_list_since = (\<lambda>since. if (2024, 3, 5) < since then []
                                   else if (2024, 1, 10) < since then [''c3'']
                                   else [''c1'', ''c3'']),
       show_date = (\<lambda>sha. if sha = ''c1'' then Inr (2024, 1, 10)
                            else if sha = ''c3'' then Inr (2024, 3, 5)
                            else Inl CalledProcessError),
       today = (2024, 4, 20),
       scanner = scan,
       report = rep,
       cloc = (\<lambda>sha. ExitNonZero) \<rparr>"

definition example_args :: args where
  "example_args = \<lparr> branch = ''main'', max_months = 100 \<rparr>"

definition example_date :: date where
  "example_date = (2024, 1, 15)"

section \<open>Flattening\<close>

lemma length_preorder: "length (preorder t) = node_count t"
proof (induction t)
  case (Node a cs)
  have "map (\<lambda>c. length (preorder c)) cs = map node_count cs"
    using Node.IH by (induction cs) auto
  then have "sum_list (map (\<lambda>c. length (preorder c)) cs) = sum_list (map node_count cs)"
    by (rule arg_cong)
  then show ?case
    by (simp add: length_concat comp_def)
qed

lemma iter_nodes_preorder: "iter_nodes t = map node_row (preorder t)"
proof (induction t)
  case (Node a cs)
  have "map iter_nodes cs = map (\<lambda>c. map node_row (preorder c)) cs"
    using Node.IH by (induction cs) auto
  then have "concat (map iter_nodes cs) = concat (map (\<lambda>c. map node_row (preorder c)) cs)"
    by (rule arg_cong)
  then show ?case
    by (simp add: map_concat comp_def)
qed

text \<open>
  C6. Flattening emits one row per node, in pre-order: the rows are exactly the rows of the
  nodes listed node-before-children with the children in input order, whether or not a
  node carries metrics, and their number is the number of nodes of the tree.
\<close>

theorem flatten_preorder_total:
  "iter_nodes t = map node_row (preorder t) \<and> length (iter_nodes t) = node_count t"
  by (simp add: iter_nodes_preorder length_preorder)

section \<open>The metrics record\<close>

lemma and_then_Inr_iff: "and_then x f = Inr r \<longleftrightarrow> (\<exists>v. x = Inr v \<and> f v = Inr r)"
  by (cases x) auto

lemma py_int_Inr_iff: "py_int v = Inr i \<longleftrightarrow> (\<exists>x. v = Some x \<and> i = trunc x)"
  by (auto simp: py_int_def split: option.splits)

lemma mean_round4_Inr_iff: "mean_round4 v = Inr m \<longleftrightarrow> (\<exists>x. v = Some x \<and> m = round_dec 4 x)"
  by (auto simp: mean_round4_def split: option.splits)

lemma ex_agg: "aggregate_metrics (process_df [metric_row (Some 10) (Some (1 / 3)) (Some 1) None]) example_date =
  Inr [(''date'', CDate (2024, 1, 15)), (''docstring coverage'', CFloat 0),
      (''docstring missing'', CInt 0), (''lines mean'', CFloat 10),
      (''lines max'', CInt 10), (''lines 90th-percentile'', CInt 10),
      (''statements mean'', CFloat 0), (''statements max'', CInt 0),
      (''statements 90th-percentile'', CInt 0),
      (''expressions mean'', CFloat 0), (''expressions max'', CInt 0),
      (''expressions 90th-percentile'', CInt 0),
      (''cyclomatic_complexity mean'', CFloat 0),
      (''cyclomatic_complexity max'', CInt 0),
      (''cyclomatic_complexity 90th-percentile'', CInt 0),
      (''parameters mean'', CFloat 0), (''parameters max'', CInt 0),
      (''parameters 90th-percentile'', CInt 0),
      (''type_coverage mean'', CFloat 1),
      (''type_coverage min'', CInt 1),
      (''type_coverage 50th-percentile'', CInt 1),
      (''todo_comments total'', CInt 0),
      (''duplication.score mean'', CFloat (3333 / 10000)),
      (''duplication.score max'', CFloat (1 / 3)),
      (''duplication.score 90th-percentile'', CFloat (1 / 3)),
      (''duplication.score 50th-percentile'', CFloat (1 / 3)),
      (''duplication.duplicated-lines total'', CInt 3)]"
  by code_simp

section \<open>Docstring coverage\<close>

lemma agg_docstring:
  assumes "aggregate_metrics df d = Inr res"
  shows "\<exists>cov. mean_round4 (bool_mean (map gt0 (str_len (map r_docstring df)))) = Inr cov \<and>
           map_of res ''docstring coverage'' = Some (CFloat cov) \<and>
           map_of res ''docstring missing'' =
             Some (CInt (int (bool_sum (map eq0 (str_len (map r_docstring df))))))"
  using assms unfolding aggregate_metrics_def and_then_Inr_iff
  by auto

lemma bool_sum_gt0: "bool_sum (map gt0 (str_len (map r_docstring df))) = length (filter has_doc df)"
  by (induction df) (auto simp: bool_sum_def gt0_def str_len_def has_doc_def split: option.splits)

lemma bool_sum_eq0: "bool_sum (map eq0 (str_len (map r_docstring df))) = length (filter empty_doc df)"
  by (induction df) (auto simp: bool_sum_def eq0_def str_len_def empty_doc_def split: option.splits)

lemma doc_partition:
  "length df = length (filter has_doc df) + length (filter empty_doc df) + length (filter null_doc df)"
  by (induction df) (auto simp: has_doc_def empty_doc_def null_doc_def split: option.splits)

lemma bool_mean_docstring:
  "bool_mean (map gt0 (str_len (map r_docstring df))) =
     (if df = [] then None
      else Some (of_nat (length (filter has_doc df)) / of_nat (length df)))"
  by (simp add: bool_mean_def bool_sum_gt0) (simp add: str_len_def)

lemma ex_doc_agg:
  "case aggregate_metrics
          (process_df [metric_row (Some 10) None (Some 1) (Some ''doc''),
                       metric_row (Some 10) None (Some 1) (Some []),
                       metric_row (Some 10) None (Some 1) None]) example_date of
     Inl e \<Rightarrow> False
   | Inr res \<Rightarrow> stat_float res ''docstring coverage'' = Some (3333 / 10000) \<and>
               stat_int res ''docstring missing'' = Some 1"
  by code_simp

text \<open>
  C10. In the record of a frame, docstring coverage is the share, rounded to four decimals,
  of the rows with a non-empty docstring among all rows, and "docstring missing" counts the
  rows whose docstring is the empty string; a row whose docstring is null is in the
  denominator and in neither count. So coverage plus missing over the row count can be
  below 1: it is for the frame of three rows with docstrings "doc", "" and null.
\<close>

theorem docstring_null_uncounted:
  assumes "aggregate_metrics df date = Inr res"
  shows "stat_float res ''docstring coverage'' =
           Some (round_dec 4 (of_nat (length (filter has_doc df)) / of_nat (length df))) \<and>
         stat_int res ''docstring missing'' = Some (int (length (filter empty_doc df))) \<and>
         length df =
           length (filter has_doc df) + length (filter empty_doc df) + length (filter null_doc df) \<and>
         (\<exists>df' date' res' cov missing.
            aggregate_metrics df' date' = Inr res' \<and> length (filter null_doc df') = 1 \<and>
            stat_float res' ''docstring coverage'' = Some cov \<and>
            stat_int res' ''docstring missing'' = Some missing \<and>
            cov + of_int missing / of_nat (length df') < 1)"
proof -
  obtain c where a:
      "mean_round4 (bool_mean (map gt0 (str_len (map r_docstring df)))) = Inr c"
      "map_of res ''docstring coverage'' = Some (CFloat c)"
      "map_of res ''docstring missing'' =
         Some (CInt (int (bool_sum (map eq0 (str_len (map r_docstring df))))))"
    using agg_docstring[OF assms] by blast
  have "c = round_dec 4 (of_nat (length (filter has_doc df)) / of_nat (length df))"
    using a(1) unfolding mean_round4_Inr_iff bool_mean_docstring by (auto split: if_splits)
  then have cov: "stat_float res ''docstring coverage'' =
           Some (round_dec 4 (of_nat (length (filter has_doc df)) / of_nat (length df)))"
    using a(2) by (simp add: stat_float_def)
  have mis: "stat_int res ''docstring missing'' = Some (int (length (filter empty_doc df)))"
    using a(3) by (simp add: stat_int_def bool_sum_eq0)
  let ?ex = "process_df [metric_row (Some 10) None (Some 1) (Some ''doc''),
                       metric_row (Some 10) None (Some 1) (Some []),
                       metric_row (Some 10) None (Some 1) None]"
  have nul: "length (filter null_doc ?ex) = 1"
    by (simp add: null_doc_def process_df_def process_row_def metric_row_def)
  have len: "length ?ex = 3" by (simp add: process_df_def)
  obtain res' where r: "aggregate_metrics ?ex example_date = Inr res'"
      "stat_float res' ''docstring coverage'' = Some (3333 / 10000)"
      "stat_int res' ''docstring missing'' = Some 1"
    using ex_doc_agg by (cases "aggregate_metrics ?ex example_date") auto
  have "(3333 / 10000 :: rat) + of_int 1 / of_nat (length ?ex) < 1"
    unfolding len by simp
  then have ex: "\<exists>df' date' res' cov missing.
            aggregate_metrics df' date' = Inr res' \<and> length (filter null_doc df') = 1 \<and>
            stat_float res' ''docstring coverage'' = Some cov \<and>
            stat_int res' ''docstring missing'' = Some missing \<and>
            cov + of_int missing / of_nat (length df') < 1"
    using r nul by blast
  show ?thesis using cov mis doc_partition[of df] ex by blast
qed

theorem docstring_null_uncounted_witness:
  "\<exists>res. aggregate_metrics
            (process_df [metric_row (Some 10) (Some (1 / 3)) (Some 1) None]) example_date = Inr res \<and>
         stat_float res ''docstring coverage'' =
           Some (round_dec 4 (of_nat (length (filter has_doc
             (process_df [metric_row (Some 10) (Some (1 / 3)) (Some 1) None]))) /
               of_nat (length (process_df [metric_row (Some 10) (Some (1 / 3)) (Some 1) None])))) \<and>
         stat_int res ''docstring missing'' =
           Some (int (length (filter empty_doc
             (process_df [metric_row (Some 10) (Some (1 / 3)) (Some 1) None]))))"
  using docstring_null_uncounted [OF ex_agg] ex_agg by blast

section \<open>Numeric coercion\<close>

text \<open>
  C4, as amended. The frame that is aggregated is the flattened rows filtered to
  \<open>has_metrics\<close> first and coerced second. The coercion replaces a null by 0 (and a number
  by its integer part) in lines, statements, expressions, expression_statements,
  cyclomatic_complexity, parameters, todo_comments and duplication.lines_other, and a null
  by 0.0 in duplication.score; type_coverage and duplication.other are left as they are.
\<close>

theorem process_df_fills_listed_columns:
  "analyze_frame data = map process_row (filter r_has_metrics (iter_nodes data)) \<and>
   r_lines (process_row r) = Some (case r_lines r of None \<Rightarrow> 0 | Some x \<Rightarrow> of_int (trunc x)) \<and>
   r_statements (process_row r) =
     Some (case r_statements r of None \<Rightarrow> 0 | Some x \<Rightarrow> of_int (trunc x)) \<and>
   r_expressions (process_row r) =
     Some (case r_expressions r of None \<Rightarrow> 0 | Some x \<Rightarrow> of_int (trunc x)) \<and>
   r_expression_statements (process_row r) =
     Some (case r_expression_statements r of None \<Rightarrow> 0 | Some x \<Rightarrow> of_int (trunc x)) \<and>
   r_cyclomatic_complexity (process_row r) =
     Some (case r_cyclomatic_complexity r of None \<Rightarrow> 0 | Some x \<Rightarrow> of_int (trunc x)) \<and>
   r_parameters (process_row r) =
     Some (case r_parameters r of None \<Rightarrow> 0 | Some x \<Rightarrow> of_int (trunc x)) \<and>
   r_todo_comments (process_row r) =
     Some (case r_todo_comments r of None \<Rightarrow> 0 | Some x \<Rightarrow> of_int (trunc x)) \<and>
   r_dup_lines_other (process_row r) =
     Some (case r_dup_lines_other r of None \<Rightarrow> 0 | Some x \<Rightarrow> of_int (trunc x)) \<and>
   r_dup_score (process_row r) = Some (case r_dup_score r of None \<Rightarrow> 0 | Some x \<Rightarrow> x) \<and>
   r_type_coverage (process_row r) = r_type_coverage r \<and>
   r_dup_other (process_row r) = r_dup_other r"
  by (simp add: analyze_frame_def load_report_to_df_def process_df_def process_row_def
      fillna_int_def fillna_float_def trunc_def split: option.split)

text \<open>
  C4 as stated fails for type_coverage: a metric-bearing file node whose metrics give only
  \<open>lines\<close> keeps a null type_coverage after the coercion, while its null duplication
  score has become 0.
\<close>

theorem type_coverage_stays_null:
  "map r_type_coverage (analyze_frame (Node (plain_node ''f'' ''file'' (Some (lines_only 10))) [])) = [None] \<and>
   map r_dup_score (analyze_frame (Node (plain_node ''f'' ''file'' (Some (lines_only 10))) [])) = [Some 0]"
  by (simp add: analyze_frame_def load_report_to_df_def process_df_def process_row_def
      node_row_def plain_node_def lines_only_def mget_def dget_def fillna_float_def)

section \<open>Ledger append\<close>























section \<open>The backfill loop\<close>

lemma month_starts_ok:
  "1 \<le> m \<Longrightarrow> m \<le> 12 \<Longrightarrow> int n + 13 \<le> 12 * y + m \<Longrightarrow> \<exists>xs. month_starts n (y, m, dd) = Inr xs"
proof (induction n arbitrary: y m dd)
  case 0
  then show ?case by simp
next
  case (Suc n)
  let ?year = "if m = 1 then y - 1 else y"
  let ?month = "if m = 1 then 12 else m - 1"
  have "1 \<le> ?month" "?month \<le> 12" "int n + 13 \<le> 12 * ?year + ?month"
    using Suc.prems by auto
  then obtain xs where "month_starts n (?year, ?month, 1) = Inr xs"
    using Suc.IH by blast
  moreover have "\<not> ?year < 1" using Suc.prems by auto
  ultimately show ?case by (simp add: Let_def)
qed

lemma month_starts_peel:
  assumes "0 < n" "1 \<le> m" "m \<le> 12" "int n + 13 \<le> 12 * y + m"
  shows "\<exists>rest. month_starts n (y, m, dd) = Inr ((y, m, dd) # rest) \<and>
           month_starts (n - 1) (if m = 1 then y - 1 else y, if m = 1 then 12 else m - 1, 1) = Inr rest"
proof -
  obtain k where k: "n = Suc k" using assms(1) by (cases n) auto
  let ?year = "if m = 1 then y - 1 else y"
  let ?month = "if m = 1 then 12 else m - 1"
  have "1 \<le> ?month" "?month \<le> 12" "int k + 13 \<le> 12 * ?year + ?month"
    using assms k by auto
  then obtain xs where xs: "month_starts k (?year, ?month, 1) = Inr xs"
    using month_starts_ok by blast
  moreover have "\<not> ?year < 1" using assms k by auto
  ultimately show ?thesis using k by (simp add: Let_def)
qed

lemma example_starts:
  "\<exists>rest. month_starts_descending (2024, 4, 20) =
     Inr ((2024, 4, 1) # (2024, 3, 1) # (2024, 2, 1) # (2024, 1, 1) # (2023, 12, 1) # rest)"
proof -
  have "\<exists>rest. month_starts 2400 (2024, 4, 1) = Inr ((2024, 4, 1) # rest) \<and>
          month_starts 2399 (2024, 3, 1) = Inr rest"
    using month_starts_peel[where n=2400 and y=2024 and m=4 and dd=1] by simp
  then obtain r1 where r1: "month_starts 2400 (2024, 4, 1) = Inr ((2024, 4, 1) # r1)"
      "month_starts 2399 (2024, 3, 1) = Inr r1" by blast
  have "\<exists>rest. month_starts 2399 (2024, 3, 1) = Inr ((2024, 3, 1) # rest) \<and>
          month_starts 2398 (2024, 2, 1) = Inr rest"
    using month_starts_peel[where n=2399 and y=2024 and m=3 and dd=1] by simp
  then obtain r2 where r2: "month_starts 2399 (2024, 3, 1) = Inr ((2024, 3, 1) # r2)"
      "month_starts 2398 (2024, 2, 1) = Inr r2" by blast
  have "\<exists>rest. month_starts 2398 (2024, 2, 1) = Inr ((2024, 2, 1) # rest) \<and>
          month_starts 2397 (2024, 1, 1) = Inr rest"
    using month_starts_peel[where n=2398 and y=2024 and m=2 and dd=1] by simp
  then obtain r3 where r3: "month_starts 2398 (2024, 2, 1) = Inr ((2024, 2, 1) # r3)"
      "month_starts 2397 (2024, 1, 1) = Inr r3" by blast
  have "\<exists>rest. month_starts 2397 (2024, 1, 1) = Inr ((2024, 1, 1) # rest) \<and>
          month_starts 2396 (2023, 12, 1) = Inr rest"
    using month_starts_peel[where n=2397 and y=2024 and m=1 and dd=1] by simp
  then obtain r4 where r4: "month_starts 2397 (2024, 1, 1) = Inr ((2024, 1, 1) # r4)"
      "month_starts 2396 (2023, 12, 1) = Inr r4" by blast
  have "\<exists>rest. month_starts 2396 (2023, 12, 1) = Inr ((2023, 12, 1) # rest) \<and>
          month_starts 2395 (2023, 11, 1) = Inr rest"
    using month_starts_peel[where n=2396 and y=2023 and m=12 and dd=1] by simp
  then obtain r5 where r5: "month_starts 2396 (2023, 12, 1) = Inr ((2023, 12, 1) # r5)" by blast
  have "r1 = (2024, 3, 1) # r2" using r1(2) r2(1) by simp
  moreover have "r2 = (2024, 2, 1) # r3" using r2(2) r3(1) by simp
  moreover have "r3 = (2024, 1, 1) # r4" using r3(2) r4(1) by simp
  moreover have "r4 = (2023, 12, 1) # r5" using r4(2) r5(1) by simp
  ultimately show ?thesis using r1(1) by (simp add: month_starts_descending_def)
qed

lemma loop_step:
  assumes "snapshot_loop e ea (m # rest) st = (sig, st')"
  shows "(sig = Finished \<and> st' = st) \<or>
         snapshot_loop e ea rest st = (sig, st') \<or>
         (\<exists>sha. sha \<notin> set (seen_shas st) \<and> stops e sha \<and> sig = stop_signal e sha \<and>
                seen_shas st' = seen_shas st @ [sha] \<and> dfs st' = dfs st) \<or>
         (\<exists>sha st2. sha \<notin> set (seen_shas st) \<and> \<not> stops e sha \<and>
                seen_shas st2 = seen_shas st @ [sha] \<and>
                snapshot_loop e ea rest st2 = (sig, st'))"
proof (cases "m < (fst ea, fst (snd ea), 1)")
  case True
  then show ?thesis using assms by simp
next
  case nb: False
  show ?thesis
  proof (cases "git_first_commit_on_or_after e m")
    case None
    then show ?thesis using nb assms by simp
  next
    case (Some sha)
    show ?thesis
    proof (cases "sha \<in> set (seen_shas st)")
      case True
      then show ?thesis using nb Some assms by simp
    next
      case new: False
      show ?thesis
      proof (cases "checkout_fails e sha")
        case True
        then have "sig = Raised CalledProcessError" "st' = st\<lparr> seen_shas := seen_shas st @ [sha] \<rparr>"
          using nb Some new assms by (auto simp: Let_def git_checkout_def)
        then show ?thesis using new True by (simp add: stops_def stop_signal_def)
      next
        case ok: False
        show ?thesis
        proof (cases "analyse_snapshot e sha")
          case (Continue r)
          then have ns: "\<not> stops e sha" using ok by (simp add: stops_def)
          obtain h where h: "git_checkout e sha (head_of (st\<lparr> seen_shas := seen_shas st @ [sha] \<rparr>)) = Some h"
            using ok by (simp add: git_checkout_def)
          let ?st2 = "st\<lparr> seen_shas := seen_shas st @ [sha], head_of := h \<rparr>"
          have "\<exists>st2. seen_shas st2 = seen_shas st @ [sha] \<and> snapshot_loop e ea rest st2 = (sig, st')"
          proof (cases r)
            case None
            then have "snapshot_loop e ea rest ?st2 = (sig, st')"
              using Continue nb Some new h assms by (simp add: Let_def)
            then show ?thesis by (intro exI[of _ ?st2]) simp
          next
            case (Some df)
            then have "snapshot_loop e ea rest (?st2\<lparr> dfs := dfs ?st2 @ [df] \<rparr>) = (sig, st')"
              using Continue nb \<open>git_first_commit_on_or_after e m = Some sha\<close> new h assms
              by (simp add: Let_def)
            then show ?thesis by (intro exI[of _ "?st2\<lparr> dfs := dfs ?st2 @ [df] \<rparr>"]) simp
          qed
          then show ?thesis using new ns by blast
        next
          case Break
          then have "sig = Finished" "seen_shas st' = seen_shas st @ [sha]" "dfs st' = dfs st"
            using nb Some new ok assms by (auto simp: Let_def git_checkout_def)
          then show ?thesis using new ok Break by (simp add: stops_def stop_signal_def)
        next
          case (Raise x)
          then have "sig = Raised x" "seen_shas st' = seen_shas st @ [sha]" "dfs st' = dfs st"
            using nb Some new ok assms by (auto simp: Let_def git_checkout_def)
          then show ?thesis using new ok Raise by (simp add: stops_def stop_signal_def)
        qed
      qed
    qed
  qed
qed

lemma loop_invariant:
  "snapshot_loop e ea ms st = (sig, st') \<Longrightarrow> distinct (seen_shas st) \<Longrightarrow>
     \<exists>new. seen_shas st' = seen_shas st @ new \<and> distinct (seen_shas st') \<and>
       (\<forall>sha \<in> set new. stops e sha \<longrightarrow> last (seen_shas st') = sha \<and> sig = stop_signal e sha)"
proof (induction ms arbitrary: st)
  case Nil
  then show ?case by simp
next
  case (Cons m rest)
  from loop_step[OF Cons.prems(1)]
  consider (a) "sig = Finished \<and> st' = st"
    | (b) "snapshot_loop e ea rest st = (sig, st')"
    | (c) sha where "sha \<notin> set (seen_shas st)" "stops e sha" "sig = stop_signal e sha"
        "seen_shas st' = seen_shas st @ [sha]"
    | (d) sha st2 where "sha \<notin> set (seen_shas st)" "\<not> stops e sha"
        "seen_shas st2 = seen_shas st @ [sha]" "snapshot_loop e ea rest st2 = (sig, st')"
    by blast
  then show ?case
  proof cases
    case a
    then show ?thesis using Cons.prems(2) by simp
  next
    case b
    then show ?thesis using Cons.IH Cons.prems(2) by blast
  next
    case c
    then show ?thesis using Cons.prems(2) by simp
  next
    case d
    have "distinct (seen_shas st2)" using d(1,3) Cons.prems(2) by simp
    from Cons.IH[OF d(4) this] obtain new where
      n: "seen_shas st' = seen_shas st2 @ new" "distinct (seen_shas st')"
        "\<forall>x \<in> set new. stops e x \<longrightarrow> last (seen_shas st') = x \<and> sig = stop_signal e x"
      by blast
    have "seen_shas st' = seen_shas st @ (sha # new)" using n(1) d(3) by simp
    moreover have "\<forall>x \<in> set (sha # new). stops e x \<longrightarrow> last (seen_shas st') = x \<and> sig = stop_signal e x"
      using n(3) d(2) by simp
    ultimately show ?thesis using n(2) by blast
  qed
qed

lemma restore_start: "restorable e h0 \<Longrightarrow> git_checkout e (restore_target h0) h = Some h0"
  by (cases h0) (auto simp: restorable_def git_checkout_def restore_target_def split: if_splits)

lemma finish_fields:
  "emitted (finish e h0 (sig, st)) = seen_shas st"
  "outcome_of (finish e h0 (sig, st)) = (case sig of Raised x \<Rightarrow> Failed x | Finished \<Rightarrow> Returned)"
  "restorable e h0 \<Longrightarrow> final_head (finish e h0 (sig, st)) = h0"
  "written (finish e h0 (Raised x, st)) = None"
  "written (finish e h0 (Finished, st)) = (if dfs st = [] then None else Some (sort_key date_key (dfs st)))"
  by (cases sig; simp add: finish_def Let_def restore_start)+

lemma main_cases:
  "emitted (main e a h0) = [] \<or>
   (\<exists>h1 ea all_starts.
       git_checkout e (branch a) h0 = Some h1 \<and> git_first_commit_date e = Inr ea \<and>
       month_starts_descending (today e) = Inr all_starts \<and>
       main e a h0 =
         finish e h0
           (snapshot_loop e ea
              (if max_months a \<noteq> 0 then slice_to (max_months a) all_starts else all_starts)
              \<lparr> head_of = h1, seen_shas = [], dfs = [] \<rparr>))"
  by (simp add: main_def Let_def split: option.splits sum.splits)

lemma main_reached:
  assumes "emitted (main e a h0) \<noteq> []"
  shows "\<exists>h1 ea starts. main e a h0 =
       finish e h0 (snapshot_loop e ea starts \<lparr> head_of = h1, seen_shas = [], dfs = [] \<rparr>)"
  using assms main_cases[of e a h0] by blast

lemma main_emitted:
  assumes "sha \<in> set (emitted (main e a h0))"
  shows "\<exists>h1 ea starts. main e a h0 =
       finish e h0 (snapshot_loop e ea starts \<lparr> head_of = h1, seen_shas = [], dfs = [] \<rparr>)"
proof -
  have "emitted (main e a h0) \<noteq> []" using assms by auto
  then show ?thesis by (rule main_reached)
qed

lemma main_stop:
  assumes "sha \<in> set (emitted (main e a h0))" "stops e sha"
  shows "last (emitted (main e a h0)) = sha \<and>
         outcome_of (main e a h0) = (case stop_signal e sha of Raised x \<Rightarrow> Failed x | Finished \<Rightarrow> Returned) \<and>
         (\<forall>x. stop_signal e sha = Raised x \<longrightarrow> written (main e a h0) = None) \<and>
         (restorable e h0 \<longrightarrow> final_head (main e a h0) = h0)"
proof -
  obtain h1 ea starts where m: "main e a h0 =
       finish e h0 (snapshot_loop e ea starts \<lparr> head_of = h1, seen_shas = [], dfs = [] \<rparr>)"
    using main_emitted[OF assms(1)] by blast
  obtain sig st where l: "snapshot_loop e ea starts \<lparr> head_of = h1, seen_shas = [], dfs = [] \<rparr> = (sig, st)"
    by (cases "snapshot_loop e ea starts \<lparr> head_of = h1, seen_shas = [], dfs = [] \<rparr>") auto
  from loop_invariant[OF l] have
    inv: "\<forall>x \<in> set (seen_shas st). stops e x \<longrightarrow> last (seen_shas st) = x \<and> sig = stop_signal e x"
    by auto
  have "sha \<in> set (seen_shas st)" using assms(1) m l by (simp add: finish_fields)
  then have "last (seen_shas st) = sha" "sig = stop_signal e sha" using inv assms(2) by auto
  then show ?thesis unfolding m l by (cases "stop_signal e sha") (auto simp: finish_fields)
qed

lemma main_distinct: "distinct (emitted (main e a h0))"
proof (cases "emitted (main e a h0) = []")
  case True
  then show ?thesis by simp
next
  case False
  then obtain h1 ea starts where m: "main e a h0 =
       finish e h0 (snapshot_loop e ea starts \<lparr> head_of = h1, seen_shas = [], dfs = [] \<rparr>)"
    using main_reached by blast
  obtain sig st where l: "snapshot_loop e ea starts \<lparr> head_of = h1, seen_shas = [], dfs = [] \<rparr> = (sig, st)"
    by (cases "snapshot_loop e ea starts \<lparr> head_of = h1, seen_shas = [], dfs = [] \<rparr>") auto
  from loop_invariant[OF l] have "distinct (seen_shas st)" by auto
  then show ?thesis unfolding m l by (simp add: finish_fields)
qed

section \<open>Runs of the backfill on the example repository\<close>

lemma example_first:
  "git_first_commit_on_or_after (example_env revs scan rep) (2024, 4, 1) = None"
  "git_first_commit_on_or_after (example_env revs scan rep) (2024, 3, 1) = Some ''c3''"
  "git_first_commit_on_or_after (example_env revs scan rep) (2024, 2, 1) = Some ''c3''"
  "git_first_commit_on_or_after (example_env revs scan rep) (2024, 1, 1) = Some ''c1''"
  by (simp_all add: git_first_commit_on_or_after_def example_env_def)

lemma example_git:
  "git_checkout (example_env revs scan rep) ''main'' h = Some (''main'', ''c3'')"
  "git_checkout (example_env revs scan rep) ''dev'' h = Some (''dev'', ''d1'')"
  "git_checkout (example_env revs scan rep) ''c3'' h = Some (''HEAD'', ''c3'')"
  "git_checkout (example_env revs scan rep) ''c1'' h = Some (''HEAD'', ''c1'')"
  "git_first_commit_date (example_env [''c1'', ''c3''] scan rep) = Inr (2024, 1, 10)"
  "git_first_commit_date (example_env [] scan rep) = Inl RuntimeError"
  by (simp_all add: git_checkout_def git_first_commit_date_def git_earliest_first_parent_sha_def
      example_env_def)

lemma example_main:
  "\<exists>rest. main (example_env [''c1'', ''c3''] scan rep) example_args (''dev'', ''d1'') =
     finish (example_env [''c1'', ''c3''] scan rep) (''dev'', ''d1'')
       (snapshot_loop (example_env [''c1'', ''c3''] scan rep) (2024, 1, 10)
          ((2024, 4, 1) # (2024, 3, 1) # (2024, 2, 1) # (2024, 1, 1) # (2023, 12, 1) # rest)
          \<lparr> head_of = (''main'', ''c3''), seen_shas = [], dfs = [] \<rparr>)"
proof -
  obtain rest where r: "month_starts_descending (2024, 4, 20) =
     Inr ((2024, 4, 1) # (2024, 3, 1) # (2024, 2, 1) # (2024, 1, 1) # (2023, 12, 1) # rest)"
    using example_starts by blast
  have t: "today (example_env [''c1'', ''c3''] scan rep) = (2024, 4, 20)"
    "main_py_exists (example_env [''c1'', ''c3''] scan rep)"
    "analyze_py_exists (example_env [''c1'', ''c3''] scan rep)"
    "map_of (heads (example_env [''c1'', ''c3''] scan rep)) ''main'' = Some ''c3''"
    by (simp_all add: example_env_def)
  have "slice_to 100 ((2024, 4, 1) # (2024, 3, 1) # (2024, 2, 1) # (2024, 1, 1) # (2023, 12, 1) # rest)
     = (2024, 4, 1) # (2024, 3, 1) # (2024, 2, 1) # (2024, 1, 1) # (2023, 12, 1) # take 95 rest"
    by (simp add: slice_to_def)
  then show ?thesis
    by (intro exI[of _ "take 95 rest"]) (simp add: main_def example_args_def t r example_git Let_def)
qed

lemma example_loop_stop:
  assumes "\<And>r. analyse_snapshot (example_env [''c1'', ''c3''] scan rep) ''c3'' \<noteq> Continue r"
  shows "snapshot_loop (example_env [''c1'', ''c3''] scan rep) (2024, 1, 10)
          ((2024, 4, 1) # (2024, 3, 1) # ms) \<lparr> head_of = (''main'', ''c3''), seen_shas = [], dfs = [] \<rparr> =
        (case analyse_snapshot (example_env [''c1'', ''c3''] scan rep) ''c3'' of
           Raise x \<Rightarrow> Raised x | _ \<Rightarrow> Finished,
         \<lparr> head_of = (''HEAD'', ''c3''), seen_shas = [''c3''], dfs = [] \<rparr>)"
proof (cases "analyse_snapshot (example_env [''c1'', ''c3''] scan rep) ''c3''")
  case (Continue r)
  then show ?thesis using assms by blast
next
  case Break
  then show ?thesis by (simp add: example_first example_git Let_def)
next
  case (Raise x)
  then show ?thesis by (simp add: example_first example_git Let_def)
qed

lemma empty_aggregate: "aggregate_metrics [] d = Inl AttributeError"
  by (simp add: aggregate_metrics_def mean_round4_def bool_mean_def str_len_def)

lemma no_metrics_analyze:
  assumes "filter r_has_metrics (iter_nodes data) = []"
  shows "analyze_main (Inr data) c d = Inl AttributeError"
  using assms
  by (simp add: analyze_main_def analyze_frame_def load_report_to_df_def process_df_def empty_aggregate)

lemma no_metrics_snapshot:
  assumes "scanner e sha = 0" "git_commit_date e sha = Inr d" "report e sha = Inr data"
    "filter r_has_metrics (iter_nodes data) = []"
  shows "analyse_snapshot e sha = Raise CalledProcessError"
  using assms by (simp add: analyse_snapshot_def run_analyze_def no_metrics_analyze Let_def)

lemma scanner_fail_snapshot:
  assumes "scanner e sha \<noteq> 0" "git_commit_date e sha = Inr d"
  shows "analyse_snapshot e sha = Break"
  using assms by (simp add: analyse_snapshot_def)

lemma bare_rows: "filter r_has_metrics (iter_nodes bare_report) = []"
  by (simp add: bare_report_def plain_node_def node_row_def)

lemma example_dates:
  "git_commit_date (example_env revs scan rep) ''c3'' = Inr (2024, 3, 5)"
  "git_commit_date (example_env revs scan rep) ''c1'' = Inr (2024, 1, 10)"
  "\<not> checkout_fails (example_env revs scan rep) t"
  "scanner (example_env revs scan rep) = scan"
  "report (example_env revs scan rep) = rep"
  "cloc (example_env revs scan rep) sha = ExitNonZero"
  "restorable (example_env revs scan rep) (''dev'', ''d1'')"
  by (simp_all add: git_commit_date_def example_env_def restorable_def restore_target_def)

lemma example_run_scanner_fails:
  "main (example_env [''c1'', ''c3''] (\<lambda>sha. 1) (\<lambda>sha. Inr good_report)) example_args (''dev'', ''d1'') =
     \<lparr> outcome_of = Returned, final_head = (''dev'', ''d1''), written = None, emitted = [''c3''] \<rparr>"
proof -
  let ?e = "example_env [''c1'', ''c3''] (\<lambda>sha. 1) (\<lambda>sha. Inr good_report)"
  have b: "analyse_snapshot ?e ''c3'' = Break"
    by (rule scanner_fail_snapshot[where d="(2024, 3, 5)"]) (simp_all add: example_dates)
  obtain rest where m: "main ?e example_args (''dev'', ''d1'') =
     finish ?e (''dev'', ''d1'')
       (snapshot_loop ?e (2024, 1, 10)
          ((2024, 4, 1) # (2024, 3, 1) # (2024, 2, 1) # (2024, 1, 1) # (2023, 12, 1) # rest)
          \<lparr> head_of = (''main'', ''c3''), seen_shas = [], dfs = [] \<rparr>)"
    using example_main by blast
  show ?thesis unfolding m
    by (subst example_loop_stop) (simp_all add: b finish_def restore_target_def example_git)
qed

lemma example_run_no_metrics:
  "main (example_env [''c1'', ''c3''] (\<lambda>sha. 0) (\<lambda>sha. Inr bare_report)) example_args (''dev'', ''d1'') =
     \<lparr> outcome_of = Failed CalledProcessError, final_head = (''dev'', ''d1''), written = None,
       emitted = [''c3''] \<rparr>"
proof -
  let ?e = "example_env [''c1'', ''c3''] (\<lambda>sha. 0) (\<lambda>sha. Inr bare_report)"
  have b: "analyse_snapshot ?e ''c3'' = Raise CalledProcessError"
    by (rule no_metrics_snapshot[where d="(2024, 3, 5)" and data=bare_report])
       (simp_all add: example_dates bare_rows)
  obtain rest where m: "main ?e example_args (''dev'', ''d1'') =
     finish ?e (''dev'', ''d1'')
       (snapshot_loop ?e (2024, 1, 10)
          ((2024, 4, 1) # (2024, 3, 1) # (2024, 2, 1) # (2024, 1, 1) # (2023, 12, 1) # rest)
          \<lparr> head_of = (''main'', ''c3''), seen_shas = [], dfs = [] \<rparr>)"
    using example_main by blast
  show ?thesis unfolding m
    by (subst example_loop_stop) (simp_all add: b finish_def restore_target_def example_git)
qed

lemma example_run_no_commits:
  "main (example_env [] (\<lambda>sha. 0) (\<lambda>sha. Inr good_report)) example_args (''dev'', ''d1'') =
     \<lparr> outcome_of = Failed RuntimeError, final_head = (''main'', ''c3''), written = None,
       emitted = [] \<rparr>"
  by (simp add: main_def example_args_def example_git) (simp add: example_env_def)

lemma good_aggregate:
  "case aggregate_metrics (analyze_frame good_report) d of Inl x \<Rightarrow> False | Inr r \<Rightarrow> True"
  by code_simp

lemma good_analyze: "\<exists>r. analyze_main (Inr good_report) ExitNonZero d = Inr r"
  using good_aggregate[of d]
  by (cases "aggregate_metrics (analyze_frame good_report) d")
     (simp_all add: analyze_main_def cloc_metrics_def)

lemma good_snapshot:
  assumes "scanner e sha = 0" "git_commit_date e sha = Inr d" "report e sha = Inr good_report"
    "cloc e sha = ExitNonZero"
  shows "\<exists>r. analyse_snapshot e sha = Continue (Some r)"
proof -
  obtain r where "analyze_main (Inr good_report) ExitNonZero d = Inr r" using good_analyze by blast
  then show ?thesis using assms by (simp add: analyse_snapshot_def run_analyze_def Let_def)
qed

lemma example_run_gap:
  "\<exists>r. main (example_env [''c1'', ''c3''] (\<lambda>sha. if sha = ''c1'' then 1 else 0) (\<lambda>sha. Inr good_report))
          example_args (''dev'', ''d1'') =
     \<lparr> outcome_of = Returned, final_head = (''dev'', ''d1''), written = Some [r],
       emitted = [''c3'', ''c1''] \<rparr>"
proof -
  let ?e = "example_env [''c1'', ''c3''] (\<lambda>sha. if sha = ''c1'' then 1 else 0) (\<lambda>sha. Inr good_report)"
  have "\<exists>r. analyse_snapshot ?e ''c3'' = Continue (Some r)"
    by (rule good_snapshot[where d="(2024, 3, 5)"]) (simp_all add: example_dates)
  then obtain r where c3: "analyse_snapshot ?e ''c3'' = Continue (Some r)" by blast
  have c1: "analyse_snapshot ?e ''c1'' = Break"
    by (rule scanner_fail_snapshot[where d="(2024, 1, 10)"]) (simp_all add: example_dates)
  obtain rest where m: "main ?e example_args (''dev'', ''d1'') =
     finish ?e (''dev'', ''d1'')
       (snapshot_loop ?e (2024, 1, 10)
          ((2024, 4, 1) # (2024, 3, 1) # (2024, 2, 1) # (2024, 1, 1) # (2023, 12, 1) # rest)
          \<lparr> head_of = (''main'', ''c3''), seen_shas = [], dfs = [] \<rparr>)"
    using example_main by blast
  have "snapshot_loop ?e (2024, 1, 10)
          ((2024, 4, 1) # (2024, 3, 1) # (2024, 2, 1) # (2024, 1, 1) # (2023, 12, 1) # rest)
          \<lparr> head_of = (''main'', ''c3''), seen_shas = [], dfs = [] \<rparr> =
        (Finished, \<lparr> head_of = (''HEAD'', ''c1''), seen_shas = [''c3'', ''c1''], dfs = [r] \<rparr>)"
    by (simp add: example_first example_git c1 c3 Let_def)
  then show ?thesis unfolding m
    by (intro exI[of _ r]) (simp add: finish_def restore_target_def example_git)
qed

text \<open>
  C7. The commits emitted in one run are pairwise distinct. In the loop, a month start at or
  after the month of the earliest commit that resolves to no commit, or to a commit already
  in \<open>seen_shas\<close>, is passed over: the loop goes on with the remaining months from the
  same state, so nothing is emitted and nothing is raised for that month.
\<close>

theorem sampler_emits_each_commit_once:
  "distinct (emitted (main e a h0)) \<and>
   (\<not> month_start < (fst ea, fst (snd ea), 1) \<and>
    git_first_commit_on_or_after e month_start = None \<longrightarrow>
      snapshot_loop e ea (month_start # rest) st = snapshot_loop e ea rest st) \<and>
   (\<not> month_start < (fst ea, fst (snd ea), 1) \<and>
    git_first_commit_on_or_after e month_start = Some sha \<and> sha \<in> set (seen_shas st) \<longrightarrow>
      snapshot_loop e ea (month_start # rest) st = snapshot_loop e ea rest st)"
  by (simp add: main_distinct)

theorem sampler_emits_each_commit_once_witness:
  "distinct (emitted (main
      (example_env [''c1'', ''c3''] (\<lambda>sha. if sha = ''c1'' then 1 else 0) (\<lambda>sha. Inr good_report))
      example_args (''dev'', ''d1''))) \<and>
   emitted (main
      (example_env [''c1'', ''c3''] (\<lambda>sha. if sha = ''c1'' then 1 else 0) (\<lambda>sha. Inr good_report))
      example_args (''dev'', ''d1'')) = [''c3'', ''c1''] \<and>
   \<not> ((2024, 4, 1) :: date) < (fst ((2024, 1, 10) :: date), fst (snd ((2024, 1, 10) :: date)), 1) \<and>
   git_first_commit_on_or_after
      (example_env [''c1'', ''c3''] (\<lambda>sha. if sha = ''c1'' then 1 else 0) (\<lambda>sha. Inr good_report))
      (2024, 4, 1) = None \<and>
   snapshot_loop
      (example_env [''c1'', ''c3''] (\<lambda>sha. if sha = ''c1'' then 1 else 0) (\<lambda>sha. Inr good_report))
      (2024, 1, 10) [(2024, 4, 1)] \<lparr> head_of = (''main'', ''c3''), seen_shas = [], dfs = [] \<rparr> =
     (Finished, \<lparr> head_of = (''main'', ''c3''), seen_shas = [], dfs = [] \<rparr>) \<and>
   \<not> ((2024, 2, 1) :: date) < (fst ((2024, 1, 10) :: date), fst (snd ((2024, 1, 10) :: date)), 1) \<and>
   git_first_commit_on_or_after
      (example_env [''c1'', ''c3''] (\<lambda>sha. if sha = ''c1'' then 1 else 0) (\<lambda>sha. Inr good_report))
      (2024, 2, 1) = Some ''c3'' \<and>
   ''c3'' \<in> set (seen_shas \<lparr> head_of = (''HEAD'', ''c3''), seen_shas = [''c3''], dfs = [] \<rparr>) \<and>
   snapshot_loop
      (example_env [''c1'', ''c3''] (\<lambda>sha. if sha = ''c1'' then 1 else 0) (\<lambda>sha. Inr good_report))
      (2024, 1, 10) [(2024, 2, 1)] \<lparr> head_of = (''HEAD'', ''c3''), seen_shas = [''c3''], dfs = [] \<rparr> =
     (Finished, \<lparr> head_of = (''HEAD'', ''c3''), seen_shas = [''c3''], dfs = [] \<rparr>)"
proof -
  let ?e = "example_env [''c1'', ''c3''] (\<lambda>sha. if sha = ''c1'' then 1 else 0) (\<lambda>sha. Inr good_report)"
  note t1 = sampler_emits_each_commit_once
    [where e="?e" and a=example_args and ?h0.0="(''dev'', ''d1'')" and month_start="(2024, 4, 1)"
       and ea="(2024, 1, 10)" and rest="[]" and sha="''c3''"
       and st="\<lparr> head_of = (''main'', ''c3''), seen_shas = [], dfs = [] \<rparr>"]
  note t2 = sampler_emits_each_commit_once
    [where e="?e" and a=example_args and ?h0.0="(''dev'', ''d1'')" and month_start="(2024, 2, 1)"
       and ea="(2024, 1, 10)" and rest="[]" and sha="''c3''"
       and st="\<lparr> head_of = (''HEAD'', ''c3''), seen_shas = [''c3''], dfs = [] \<rparr>"]
  have g: "\<not> ((2024, 4, 1) :: date) < (fst ((2024, 1, 10) :: date), fst (snd ((2024, 1, 10) :: date)), 1)"
      "\<not> ((2024, 2, 1) :: date) < (fst ((2024, 1, 10) :: date), fst (snd ((2024, 1, 10) :: date)), 1)"
    by simp_all
  obtain r where "main ?e example_args (''dev'', ''d1'') =
     \<lparr> outcome_of = Returned, final_head = (''dev'', ''d1''), written = Some [r],
       emitted = [''c3'', ''c1''] \<rparr>"
    using example_run_gap by blast
  then have em: "emitted (main ?e example_args (''dev'', ''d1'')) = [''c3'', ''c1'']" by simp
  show ?thesis using t1 t2 g em example_first(1,3)[of "[''c1'', ''c3'']"] by simp
qed

section \<open>Failures during a run\<close>

text \<open>
  C2, as amended. If the report generator exits non-zero at a commit of the run that was
  checked out and whose commit date can be read for the message, that commit is the last
  one emitted (no older snapshot is processed), \<open>main\<close> returns normally, no error
  reaching the caller, and a start that can be checked out again is restored.
\<close>

theorem scanner_failure_ends_run:
  assumes "sha \<in> set (emitted (main e a h0))" "\<not> checkout_fails e sha"
    "scanner e sha \<noteq> 0" "git_commit_date e sha = Inr d"
  shows "last (emitted (main e a h0)) = sha \<and> outcome_of (main e a h0) = Returned \<and>
         (restorable e h0 \<longrightarrow> final_head (main e a h0) = h0)"
proof -
  have b: "analyse_snapshot e sha = Break" using assms(3,4) by (rule scanner_fail_snapshot)
  then have "stops e sha" "stop_signal e sha = Finished"
    using assms(2) by (simp_all add: stops_def stop_signal_def)
  then show ?thesis using main_stop[OF assms(1)] by simp
qed

theorem scanner_failure_ends_run_witness:
  "''c3'' \<in> set (emitted (main (example_env [''c1'', ''c3''] (\<lambda>sha. 1) (\<lambda>sha. Inr good_report))
                     example_args (''dev'', ''d1''))) \<and>
   \<not> checkout_fails (example_env [''c1'', ''c3''] (\<lambda>sha. 1) (\<lambda>sha. Inr good_report)) ''c3'' \<and>
   scanner (example_env [''c1'', ''c3''] (\<lambda>sha. 1) (\<lambda>sha. Inr good_report)) ''c3'' \<noteq> 0 \<and>
   git_commit_date (example_env [''c1'', ''c3''] (\<lambda>sha. 1) (\<lambda>sha. Inr good_report)) ''c3'' =
     Inr (2024, 3, 5) \<and>
   restorable (example_env [''c1'', ''c3''] (\<lambda>sha. 1) (\<lambda>sha. Inr good_report)) (''dev'', ''d1'') \<and>
   last (emitted (main (example_env [''c1'', ''c3''] (\<lambda>sha. 1) (\<lambda>sha. Inr good_report))
                     example_args (''dev'', ''d1''))) = ''c3'' \<and>
   outcome_of (main (example_env [''c1'', ''c3''] (\<lambda>sha. 1) (\<lambda>sha. Inr good_report))
                     example_args (''dev'', ''d1'')) = Returned \<and>
   final_head (main (example_env [''c1'', ''c3''] (\<lambda>sha. 1) (\<lambda>sha. Inr good_report))
                     example_args (''dev'', ''d1'')) = (''dev'', ''d1'')"
proof -
  let ?e = "example_env [''c1'', ''c3''] (\<lambda>sha. 1) (\<lambda>sha. Inr good_report)"
  have h1: "''c3'' \<in> set (emitted (main ?e example_args (''dev'', ''d1'')))"
    by (simp add: example_run_scanner_fails)
  have h2: "\<not> checkout_fails ?e ''c3''" by (simp add: example_dates)
  have h3: "scanner ?e ''c3'' \<noteq> 0" by (simp add: example_dates)
  have h4: "git_commit_date ?e ''c3'' = Inr (2024, 3, 5)" by (simp add: example_dates)
  have h5: "restorable ?e (''dev'', ''d1'')" by (simp add: example_dates)
  show ?thesis using scanner_failure_ends_run [OF h1 h2 h3 h4] h1 h2 h3 h4 h5 by blast
qed

text \<open>
  C2 as stated fails in its last part: with the report generator failing at the newest
  commit c3, the run stops there and returns; nothing is raised.
\<close>

theorem scanner_failure_not_raised:
  "scanner (example_env [''c1'', ''c3''] (\<lambda>sha. 1) (\<lambda>sha. Inr good_report)) ''c3'' \<noteq> 0 \<and>
   emitted (main (example_env [''c1'', ''c3''] (\<lambda>sha. 1) (\<lambda>sha. Inr good_report))
              example_args (''dev'', ''d1'')) = [''c3''] \<and>
   outcome_of (main (example_env [''c1'', ''c3''] (\<lambda>sha. 1) (\<lambda>sha. Inr good_report))
              example_args (''dev'', ''d1'')) = Returned"
  by (simp add: example_run_scanner_fails example_dates)

text \<open>
  A checked-out and scanned commit whose report has no metric-bearing row ends the run: the
  frame has no rows, the first \<open>.mean().round(4)\<close> raises \<open>AttributeError\<close>, the
  analysis exits with status 1 and the checked call raises \<open>CalledProcessError\<close>; that
  commit is the last one emitted and nothing is written.
\<close>

lemma no_metrics_ends_run:
  assumes "sha \<in> set (emitted (main e a h0))" "\<not> checkout_fails e sha"
    "scanner e sha = 0" "git_commit_date e sha = Inr d" "report e sha = Inr data"
    "filter r_has_metrics (iter_nodes data) = []"
  shows "aggregate_metrics (analyze_frame data) d = Inl AttributeError \<and>
         returncode (run_analyze (report e sha) (cloc e sha) d) = 1 \<and>
         last (emitted (main e a h0)) = sha \<and>
         outcome_of (main e a h0) = Failed CalledProcessError \<and>
         written (main e a h0) = None"
proof -
  have fr: "analyze_frame data = []"
    using assms(6) by (simp add: analyze_frame_def load_report_to_df_def process_df_def)
  have agg: "aggregate_metrics (analyze_frame data) d = Inl AttributeError"
    unfolding fr by (rule empty_aggregate)
  have rc: "returncode (run_analyze (report e sha) (cloc e sha) d) = 1"
    using assms(5,6) by (simp add: run_analyze_def no_metrics_analyze)
  have b: "analyse_snapshot e sha = Raise CalledProcessError"
    using assms(3-6) by (rule no_metrics_snapshot)
  then have "stops e sha" "stop_signal e sha = Raised CalledProcessError"
    using assms(2) by (simp_all add: stops_def stop_signal_def)
  then show ?thesis using main_stop[OF assms(1)] agg rc by simp
qed

text \<open>
  C3. The repository has the commits c3 (March) and c1 (January), and the report of every
  snapshot is one directory without metrics, so no row is metric-bearing. At c3 the frame
  is empty and the aggregation raises \<open>AttributeError\<close> at its first statistic; the
  analysis exits with status 1 and prints nothing. The run does not skip the snapshot: it
  ends there with \<open>CalledProcessError\<close>, c1 is never emitted although January
  resolves to it, and nothing is written.
\<close>

theorem empty_snapshot_not_skipped:
  "filter r_has_metrics (iter_nodes bare_report) = [] \<and>
   analyze_frame bare_report = [] \<and>
   aggregate_metrics (analyze_frame bare_report) (2024, 3, 5) = Inl AttributeError \<and>
   run_analyze (Inr bare_report) ExitNonZero (2024, 3, 5) = \<lparr> returncode = 1, stdout = None \<rparr> \<and>
   git_first_commit_on_or_after
     (example_env [''c1'', ''c3''] (\<lambda>sha. 0) (\<lambda>sha. Inr bare_report)) (2024, 1, 1) = Some ''c1'' \<and>
   main (example_env [''c1'', ''c3''] (\<lambda>sha. 0) (\<lambda>sha. Inr bare_report))
        example_args (''dev'', ''d1'') =
     \<lparr> outcome_of = Failed CalledProcessError, final_head = (''dev'', ''d1''), written = None,
       emitted = [''c3''] \<rparr>"
proof -
  have fr: "analyze_frame bare_report = []"
    using bare_rows by (simp add: analyze_frame_def load_report_to_df_def process_df_def)
  have agg: "aggregate_metrics (analyze_frame bare_report) (2024, 3, 5) = Inl AttributeError"
    unfolding fr by (rule empty_aggregate)
  have rc: "run_analyze (Inr bare_report) ExitNonZero (2024, 3, 5) =
              \<lparr> returncode = 1, stdout = None \<rparr>"
    by (simp add: run_analyze_def no_metrics_analyze[OF bare_rows])
  show ?thesis using fr agg rc by (simp add: example_run_no_metrics bare_rows example_first)
qed

text \<open>
  Once the loop is entered, every way out passes the \<open>finally\<close> clause, and a start
  that can be checked out again is restored.
\<close>

lemma start_restored_once_loop_entered:
  assumes "restorable e h0" "main_py_exists e" "analyze_py_exists e"
    "map_of (heads e) (branch a) \<noteq> None" "git_checkout e (branch a) h0 = Some h1"
    "git_first_commit_date e = Inr ea" "month_starts_descending (today e) = Inr all_starts"
  shows "final_head (main e a h0) = h0"
proof -
  let ?r = "snapshot_loop e ea
              (if max_months a \<noteq> 0 then slice_to (max_months a) all_starts else all_starts)
              \<lparr> head_of = h1, seen_shas = [], dfs = [] \<rparr>"
  have "main e a h0 = finish e h0 ?r"
    using assms(2-7) by (auto simp: main_def Let_def)
  then show ?thesis using finish_fields(3)[OF assms(1), of "fst ?r" "snd ?r"] by simp
qed

text \<open>
  C1. The restoration covers the \<open>try\<close> block only. Started on branch dev with
  \<open>--branch main\<close>, when git lists no commit for the branch, \<open>git_first_commit_date\<close>
  raises \<open>RuntimeError\<close> after main has been checked out and before the \<open>try\<close>
  block: the run ends with the repository on main, not on dev.
\<close>

theorem start_not_restored_before_loop:
  "restorable (example_env [] (\<lambda>sha. 0) (\<lambda>sha. Inr good_report)) (''dev'', ''d1'') \<and>
   main (example_env [] (\<lambda>sha. 0) (\<lambda>sha. Inr good_report)) example_args (''dev'', ''d1'') =
     \<lparr> outcome_of = Failed RuntimeError, final_head = (''main'', ''c3''), written = None,
       emitted = [] \<rparr> \<and>
   final_head (main (example_env [] (\<lambda>sha. 0) (\<lambda>sha. Inr good_report)) example_args (''dev'', ''d1''))
     \<noteq> (''dev'', ''d1'')"
  by (simp add: example_run_no_commits example_dates)

text \<open>The failures that \<open>cloc_metrics\<close> does absorb.\<close>

lemma cloc_tolerated:
  "cloc_metrics ExitNonZero = Inr []"
  "cloc_metrics (Printed None) = Inr []"
  "map_of members ''Python'' = None \<Longrightarrow> cloc_metrics (Printed (Some (JObj members))) = Inr []"
  by (simp_all add: cloc_metrics_def)

text \<open>
  C8. When the line counter is not installed, \<open>subprocess.run\<close> raises
  \<open>FileNotFoundError\<close>, which \<open>cloc_metrics\<close> does not catch: the analysis of a
  report with metrics ends with that exception and exit status 1.
\<close>

theorem cloc_missing_is_fatal:
  "cloc_metrics NotInstalled = Inl FileNotFoundError \<and>
   analyze_main (Inr good_report) NotInstalled example_date = Inl FileNotFoundError \<and>
   returncode (run_analyze (Inr good_report) NotInstalled example_date) = 1"
proof -
  have c: "cloc_metrics NotInstalled = Inl FileNotFoundError" by (simp add: cloc_metrics_def)
  have "analyze_main (Inr good_report) NotInstalled example_date = Inl FileNotFoundError"
    using good_aggregate[of example_date]
    by (cases "aggregate_metrics (analyze_frame good_report) example_date")
       (simp_all add: analyze_main_def c)
  then show ?thesis using c by (simp add: run_analyze_def)
qed

end
